theory Spec2Isabelle
  imports Complex_Main
begin

section \<open>Numbers\<close>

text \<open>
  The fields of \<open>ProgressParams\<close> and \<open>ProgressResult\<close> are TypeScript \<open>number\<close>s holding
  amounts in cents and ratios of such amounts. A finite number is modelled by the exact
  rational it denotes; rounding of the quotients is not modelled. The values that are not
  finite numbers arise in this code from a division whose divisor is zero
  (\<open>0 / 0\<close> is NaN, \<open>x / 0\<close> is an infinity): such a division is the error value of the
  model, and the error is propagated by \<open>bind\<close> as NaN is by the arithmetic that follows.
\<close>

type_synonym number = rat

datatype error = NotFinite

definition js_div :: "number \<Rightarrow> number \<Rightarrow> error + number" where
  "js_div a b = (if b = 0 then Inl NotFinite else Inr (a / b))"

definition bind :: "error + 'a \<Rightarrow> ('a \<Rightarrow> error + 'b) \<Rightarrow> error + 'b" where
  "bind m f = (case m of Inl e \<Rightarrow> Inl e | Inr x \<Rightarrow> f x)"

section \<open>The simple calculator\<close>

text \<open>
  The repository holds two drafts of \<open>CategoryProgressBar.tsx\<close>. The simple one (the one
  the test file exercises) keeps the source's names; the names of the template-aware one
  carry a \<open>T\<close> where the two would clash.
\<close>

record ProgressParams =
  assigned :: number
  activity :: number
  balance :: number

datatype progress_state = within_budget | over_budget

record ProgressResult =
  baselineAmount :: number
  progressRatio :: number
  overflowRatio :: number
  remaining :: number
  state :: progress_state

definition computeCategoryProgress :: "ProgressParams \<Rightarrow> error + ProgressResult" where
  "computeCategoryProgress params =
     (let spent = \<bar>activity params\<bar> in
      if assigned params \<le> 0 then
        (if spent \<le> 0 then
           Inr \<lparr>baselineAmount = 0, progressRatio = 0, overflowRatio = 0,
                remaining = 0, state = within_budget\<rparr>
         else
           Inr \<lparr>baselineAmount = spent, progressRatio = 1, overflowRatio = 0,
                remaining = balance params, state = over_budget\<rparr>)
      else if spent > assigned params then
        bind (js_div (spent - assigned params) (assigned params)) (\<lambda>overflow.
          Inr \<lparr>baselineAmount = assigned params, progressRatio = 1,
               overflowRatio = overflow, remaining = balance params,
               state = over_budget\<rparr>)
      else
        bind (js_div spent (assigned params)) (\<lambda>ratio.
          Inr \<lparr>baselineAmount = assigned params, progressRatio = ratio,
               overflowRatio = 0, remaining = balance params,
               state = within_budget\<rparr>))"

section \<open>The template-aware calculator\<close>

text \<open>
  \<open>template\<close> is an optional field: \<open>None\<close> is the absent field, which the destructuring
  pattern \<open>template = 0\<close> replaces by zero.
\<close>

record ProgressParamsT = ProgressParams +
  template :: "number option"

datatype progress_stateT = funded | underfunded | over_budgetT

record ProgressResultT =
  baselineAmountT :: number
  spentRatio :: number
  budgetedRatio :: number
  overflowRatioT :: number
  remainingT :: number
  stateT :: progress_stateT

definition template_or_0 :: "ProgressParamsT \<Rightarrow> number" where
  "template_or_0 params = (case template params of None \<Rightarrow> 0 | Some t \<Rightarrow> t)"

definition computeCategoryProgressT :: "ProgressParamsT \<Rightarrow> error + ProgressResultT" where
  "computeCategoryProgressT params =
     (let tmpl = template_or_0 params;
          spent = \<bar>activity params\<bar>;
          hasTemplate = (tmpl > 0)
      in
      bind (if hasTemplate
            then bind (js_div (assigned params) tmpl) (\<lambda>q. Inr (min q 1))
            else Inr 1) (\<lambda>budgeted.
      if assigned params \<le> 0 then
        (if spent \<le> 0 then
           Inr \<lparr>baselineAmountT = 0, spentRatio = 0, budgetedRatio = 0,
                overflowRatioT = 0, remainingT = 0, stateT = funded\<rparr>
         else
           Inr \<lparr>baselineAmountT = spent, spentRatio = 1, budgetedRatio = 0,
                overflowRatioT = 0, remainingT = balance params,
                stateT = over_budgetT\<rparr>)
      else if spent > assigned params then
        bind (js_div (spent - assigned params) (assigned params)) (\<lambda>overflow.
          Inr \<lparr>baselineAmountT = assigned params, spentRatio = 1, budgetedRatio = 1,
               overflowRatioT = overflow, remainingT = balance params,
               stateT = over_budgetT\<rparr>)
      else
        (let isUnderfunded = (hasTemplate \<and> assigned params < tmpl);
             baseline = (if hasTemplate then tmpl else assigned params)
         in
         bind (if assigned params > 0
               then bind (js_div spent (assigned params)) (\<lambda>q. Inr (min q 1 * budgeted))
               else Inr 0) (\<lambda>ratio.
           Inr \<lparr>baselineAmountT = baseline, spentRatio = ratio,
                budgetedRatio = budgeted, overflowRatioT = 0,
                remainingT = balance params,
                stateT = (if isUnderfunded then underfunded else funded)\<rparr>))))"

section \<open>Rendering helpers\<close>

text \<open>
  \<open>Math.round\<close> rounds half up. A template literal prints a whole number in decimal
  (the exponent notation of very large numbers is not modelled). \<open>join\<close> is
  \<open>Array.prototype.join\<close>; the separator is the source's bullet between two spaces, the
  bullet (U+2022) written as the three bytes of its UTF-8 encoding.
\<close>

definition math_round :: "number \<Rightarrow> int" where
  "math_round x = \<lfloor>x + 1 / 2\<rfloor>"

definition digit_char :: "nat \<Rightarrow> char" where
  "digit_char d = ''0123456789'' ! d"

fun show_nat :: "nat \<Rightarrow> string" where
  "show_nat n =
     (if n < 10 then [digit_char n] else show_nat (n div 10) @ [digit_char (n mod 10)])"

declare show_nat.simps [simp del]

definition show_int :: "int \<Rightarrow> string" where
  "show_int i = (if i < 0 then CHR ''-'' # show_nat (nat (- i)) else show_nat (nat i))"

definition separator :: string where
  "separator = [CHR '' '', CHR 0xE2, CHR 0x80, CHR 0xA2, CHR '' '']"

fun join :: "string \<Rightarrow> string list \<Rightarrow> string" where
  "join sep [] = []"
| "join sep [x] = x"
| "join sep (x # y # ys) = x @ sep @ join sep (y # ys)"

text \<open>
  The hooks read ambient state; the model passes it in. \<open>useFormat\<close> is the formatter
  already applied to the kind \<open>'financial'\<close>. \<open>useGlobalPref\<close> gives \<open>None\<close> for a
  preference that is not set.
\<close>

record hooks =
  useFeatureFlag :: "string \<Rightarrow> bool"
  useGlobalPref :: "string \<Rightarrow> bool option"
  useFormat :: "number \<Rightarrow> string"

datatype theme_color = budgetNumberNegative | templateNumberUnderFunded | templateNumberFunded

text \<open>
  What the component returns: \<open>None\<close> is \<open>null\<close>, otherwise the tooltip text, the fill
  colour and the fill segments inside the track, in document order. A segment keeps its
  \<open>left\<close> and \<open>width\<close> as the number printed before the percent sign, and its border
  radius; its kind stands for the fixed styling of the three segments (opacity 0.35 for
  the budgeted fill, brightness 0.72 for the overflow fill).
\<close>

datatype fill_kind = budgeted_fill | spent_fill | overflow_fill

record fill =
  kind :: fill_kind
  leftPct :: number
  widthPct :: number
  borderRadius :: nat

record bar =
  tooltipContent :: string
  fillColor :: theme_color
  fills :: "fill list"

section \<open>The simple component\<close>

definition getProgressBarColor :: "progress_state \<Rightarrow> theme_color" where
  "getProgressBarColor s =
     (if s = over_budget then budgetNumberNegative else templateNumberFunded)"

definition CategoryProgressBar :: "hooks \<Rightarrow> ProgressParams \<Rightarrow> error + bar option" where
  "CategoryProgressBar h props =
     (let progressBarEnabled = useFeatureFlag h ''progressBar'';
          format = useFormat h
      in
      bind (computeCategoryProgress props) (\<lambda>progress.
      let color = getProgressBarColor (state progress);
          total = progressRatio progress + overflowRatio progress;
          tooltipParts =
            (if baselineAmount progress > 0
             then [show_int (math_round (total * 100)) @ ''% of budget spent''] else []) @
            (if assigned props \<noteq> 0
             then [''Budgeted: '' @ format (assigned props)] else []) @
            (if activity props \<noteq> 0
             then [''Spent: '' @ format \<bar>activity props\<bar>] else []) @
            (if balance props \<noteq> 0
             then [''Balance: '' @ format (balance props)] else [])
      in
      if \<not> progressBarEnabled \<or> baselineAmount progress \<le> 0 then Inr None
      else
        bind (if overflowRatio progress > 0
              then bind (js_div (progressRatio progress) total) (\<lambda>q. Inr (q * 100))
              else Inr (progressRatio progress * 100)) (\<lambda>spentWidth.
        bind (if overflowRatio progress > 0
              then bind (js_div (progressRatio progress) total) (\<lambda>l.
                   bind (js_div (overflowRatio progress) total) (\<lambda>w.
                     Inr [\<lparr>kind = overflow_fill, leftPct = l * 100,
                           widthPct = w * 100, borderRadius = 0\<rparr>]))
              else Inr []) (\<lambda>overflowFills.
        Inr (Some \<lparr>tooltipContent = join separator tooltipParts,
                   fillColor = color,
                   fills =
                     \<lparr>kind = spent_fill, leftPct = 0, widthPct = spentWidth,
                      borderRadius = (if overflowRatio progress > 0 then 0 else 3)\<rparr>
                     # overflowFills\<rparr>)))))"

section \<open>The template-aware component\<close>

definition getProgressBarColorT :: "progress_stateT \<Rightarrow> theme_color" where
  "getProgressBarColorT s =
     (case s of
        over_budgetT \<Rightarrow> budgetNumberNegative
      | underfunded \<Rightarrow> templateNumberUnderFunded
      | funded \<Rightarrow> templateNumberFunded)"

text \<open>
  The test \<open>template && template > 0\<close> of the component: an absent or zero template is
  falsy.
\<close>

definition template_set :: "ProgressParamsT \<Rightarrow> bool" where
  "template_set props =
     (case template props of None \<Rightarrow> False | Some t \<Rightarrow> t \<noteq> 0 \<and> t > 0)"

definition CategoryProgressBarT :: "hooks \<Rightarrow> ProgressParamsT \<Rightarrow> error + bar option" where
  "CategoryProgressBarT h props =
     (let progressBarEnabled = useFeatureFlag h ''progressBar'';
          format = useFormat h
      in
      bind (computeCategoryProgressT props) (\<lambda>progress.
      let color = getProgressBarColorT (stateT progress);
          total = spentRatio progress + overflowRatioT progress;
          tooltipParts =
            (if baselineAmountT progress > 0
             then [show_int (math_round (total * 100)) @
                   (if template_set props then ''% of template spent''
                    else ''% of budget spent'')]
             else []) @
            (if template_set props
             then [''Template: '' @ format (template_or_0 props)] else []) @
            (if assigned props \<noteq> 0
             then [''Budgeted: '' @ format (assigned props)] else []) @
            (if activity props \<noteq> 0
             then [''Spent: '' @ format \<bar>activity props\<bar>] else []) @
            (if balance props \<noteq> 0
             then [''Balance: '' @ format (balance props)] else [])
      in
      if \<not> progressBarEnabled \<or> baselineAmountT progress \<le> 0 then Inr None
      else
        bind (if overflowRatioT progress > 0
              then bind (js_div (spentRatio progress) total) (\<lambda>q. Inr (q * 100))
              else Inr (spentRatio progress * 100)) (\<lambda>spentWidth.
        bind (if overflowRatioT progress > 0
              then bind (js_div (spentRatio progress) total) (\<lambda>l.
                   bind (js_div (overflowRatioT progress) total) (\<lambda>w.
                     Inr [\<lparr>kind = overflow_fill, leftPct = l * 100,
                           widthPct = w * 100, borderRadius = 0\<rparr>]))
              else Inr []) (\<lambda>overflowFills.
        Inr (Some \<lparr>tooltipContent = join separator tooltipParts,
                   fillColor = color,
                   fills =
                     (if template_set props \<and> budgetedRatio progress > 0
                      then [\<lparr>kind = budgeted_fill, leftPct = 0,
                             widthPct = budgetedRatio progress * 100,
                             borderRadius = 3\<rparr>]
                      else []) @
                     \<lparr>kind = spent_fill, leftPct = 0, widthPct = spentWidth,
                      borderRadius = (if overflowRatioT progress > 0 then 0 else 3)\<rparr>
                     # overflowFills\<rparr>)))))"

section \<open>The row that holds the bar\<close>

text \<open>
  \<open>ExpenseCategory\<close> is where the preference \<open>showProgressBars\<close> is read: the row grows
  to make room for the bar when the flag is on and the preference is not \<open>false\<close>.
\<close>

definition showProgressBars :: "hooks \<Rightarrow> bool" where
  "showProgressBars h =
     (useFeatureFlag h ''progressBar'' \<and> useGlobalPref h ''showProgressBars'' \<noteq> Some False)"

section \<open>Concrete inputs\<close>

text \<open>
  The formatter of the test file prints the number itself; on whole cents that is the
  decimal numeral.
\<close>

definition format_cents :: "number \<Rightarrow> string" where
  "format_cents v = show_int \<lfloor>v\<rfloor>"

definition hooks_bars_hidden :: hooks where
  "hooks_bars_hidden =
     \<lparr>useFeatureFlag = (\<lambda>name. name = ''progressBar''),
      useGlobalPref = (\<lambda>name. if name = ''showProgressBars'' then Some False else None),
      useFormat = format_cents\<rparr>"

definition hooks_disabled :: hooks where
  "hooks_disabled =
     \<lparr>useFeatureFlag = (\<lambda>name. False),
      useGlobalPref = (\<lambda>name. None),
      useFormat = format_cents\<rparr>"

section \<open>The calculators, branch by branch\<close>

lemma bind_Inr [simp]: "bind (Inr x) f = f x"
  by (simp add: bind_def)

lemma bind_Inl [simp]: "bind (Inl e) f = Inl e"
  by (simp add: bind_def)

lemma js_div_nonzero [simp]: "b \<noteq> 0 \<Longrightarrow> js_div a b = Inr (a / b)"
  by (simp add: js_div_def)

lemma simple_quiet:
  assumes "assigned p \<le> 0" and "activity p = 0"
  shows "computeCategoryProgress p =
     Inr \<lparr>baselineAmount = 0, progressRatio = 0, overflowRatio = 0,
          remaining = 0, state = within_budget\<rparr>"
  using assms by (simp add: computeCategoryProgress_def)

lemma simple_unbudgeted:
  assumes "assigned p \<le> 0" and "activity p \<noteq> 0"
  shows "computeCategoryProgress p =
     Inr \<lparr>baselineAmount = \<bar>activity p\<bar>, progressRatio = 1, overflowRatio = 0,
          remaining = balance p, state = over_budget\<rparr>"
  using assms by (simp add: computeCategoryProgress_def)

lemma simple_over:
  assumes "0 < assigned p" and "assigned p < \<bar>activity p\<bar>"
  shows "computeCategoryProgress p =
     Inr \<lparr>baselineAmount = assigned p, progressRatio = 1,
          overflowRatio = (\<bar>activity p\<bar> - assigned p) / assigned p,
          remaining = balance p, state = over_budget\<rparr>"
  using assms by (simp add: computeCategoryProgress_def Let_def)

lemma simple_within:
  assumes "0 < assigned p" and "\<bar>activity p\<bar> \<le> assigned p"
  shows "computeCategoryProgress p =
     Inr \<lparr>baselineAmount = assigned p, progressRatio = \<bar>activity p\<bar> / assigned p,
          overflowRatio = 0, remaining = balance p, state = within_budget\<rparr>"
  using assms by (simp add: computeCategoryProgress_def Let_def)

lemma template_quiet:
  assumes "assigned q \<le> 0" and "activity q = 0"
  shows "computeCategoryProgressT q =
     Inr \<lparr>baselineAmountT = 0, spentRatio = 0, budgetedRatio = 0,
          overflowRatioT = 0, remainingT = 0, stateT = funded\<rparr>"
  using assms by (simp add: computeCategoryProgressT_def Let_def)

lemma template_unbudgeted:
  assumes "assigned q \<le> 0" and "activity q \<noteq> 0"
  shows "computeCategoryProgressT q =
     Inr \<lparr>baselineAmountT = \<bar>activity q\<bar>, spentRatio = 1, budgetedRatio = 0,
          overflowRatioT = 0, remainingT = balance q, stateT = over_budgetT\<rparr>"
  using assms by (simp add: computeCategoryProgressT_def Let_def)

lemma template_over:
  assumes "0 < assigned q" and "assigned q < \<bar>activity q\<bar>"
  shows "computeCategoryProgressT q =
     Inr \<lparr>baselineAmountT = assigned q, spentRatio = 1, budgetedRatio = 1,
          overflowRatioT = (\<bar>activity q\<bar> - assigned q) / assigned q,
          remainingT = balance q, stateT = over_budgetT\<rparr>"
  using assms by (simp add: computeCategoryProgressT_def Let_def)

lemma template_within:
  assumes "0 < assigned q" and "\<bar>activity q\<bar> \<le> assigned q"
  shows "computeCategoryProgressT q =
     Inr \<lparr>baselineAmountT = (if 0 < template_or_0 q then template_or_0 q else assigned q),
          spentRatio = min (\<bar>activity q\<bar> / assigned q) 1 *
            (if 0 < template_or_0 q then min (assigned q / template_or_0 q) 1 else 1),
          budgetedRatio =
            (if 0 < template_or_0 q then min (assigned q / template_or_0 q) 1 else 1),
          overflowRatioT = 0, remainingT = balance q,
          stateT = (if 0 < template_or_0 q \<and> assigned q < template_or_0 q
                    then underfunded else funded)\<rparr>"
  using assms by (simp add: computeCategoryProgressT_def Let_def)

text \<open>The four branches cover every input; both calculators branch on the same tests.\<close>

lemma branches:
  obtains (quiet) "assigned p \<le> 0" "activity p = 0"
  | (unbudgeted) "assigned p \<le> 0" "activity p \<noteq> 0"
  | (over) "0 < assigned p" "assigned p < \<bar>activity p\<bar>"
  | (within) "0 < assigned p" "\<bar>activity p\<bar> \<le> assigned p"
  by (cases "assigned p \<le> 0"; cases "activity p = 0"; cases "assigned p < \<bar>activity p\<bar>")
     auto

lemma budgeted_bounds:
  fixes a t :: rat
  assumes "0 < a"
  shows "0 < (if 0 < t then min (a / t) 1 else 1)"
    and "(if 0 < t then min (a / t) 1 else 1) \<le> 1"
  using assms by simp_all

lemma template_or_0_activity:
  "template_or_0 (q\<lparr>activity := a\<rparr>) = template_or_0 q"
  by (simp add: template_or_0_def)

text \<open>The bounds on the result, for each calculator.\<close>

lemma simple_invariant:
  "\<exists>r. computeCategoryProgress p = Inr r \<and>
        0 \<le> progressRatio r \<and> progressRatio r \<le> 1 \<and>
        0 \<le> overflowRatio r \<and>
        (0 < overflowRatio r \<longrightarrow> progressRatio r = 1) \<and>
        0 \<le> baselineAmount r \<and>
        (baselineAmount r = 0 \<longrightarrow> progressRatio r = 0 \<and> overflowRatio r = 0)"
proof (cases p rule: branches)
  case quiet
  then show ?thesis by (simp add: simple_quiet)
next
  case unbudgeted
  then show ?thesis by (simp add: simple_unbudgeted)
next
  case over
  then show ?thesis by (simp add: simple_over)
next
  case within
  then show ?thesis by (simp add: simple_within)
qed

lemma template_invariant:
  "\<exists>r. computeCategoryProgressT q = Inr r \<and>
        0 \<le> spentRatio r \<and> spentRatio r \<le> 1 \<and>
        0 \<le> overflowRatioT r \<and>
        (0 < overflowRatioT r \<longrightarrow> spentRatio r = 1) \<and>
        0 \<le> baselineAmountT r \<and>
        (baselineAmountT r = 0 \<longrightarrow> spentRatio r = 0 \<and> overflowRatioT r = 0)"
proof (cases q rule: branches)
  case quiet
  then show ?thesis by (simp add: template_quiet)
next
  case unbudgeted
  then show ?thesis by (simp add: template_unbudgeted)
next
  case over
  then show ?thesis by (simp add: template_over)
next
  case within
  let ?b = "if 0 < template_or_0 q then min (assigned q / template_or_0 q) 1 else 1"
  let ?s = "min (\<bar>activity q\<bar> / assigned q) 1"
  have b: "0 < ?b" "?b \<le> 1"
    using within(1) by (rule budgeted_bounds)+
  have s: "0 \<le> ?s" "?s \<le> 1"
    using within by simp_all
  have "0 \<le> ?s * ?b"
    using s(1) b(1) by (intro mult_nonneg_nonneg) simp_all
  moreover have "?s * ?b \<le> 1"
    using s b by (intro mult_le_one) simp_all
  moreover have "0 < (if 0 < template_or_0 q then template_or_0 q else assigned q)"
    using within(1) by simp
  ultimately show ?thesis
    using within by (simp add: template_within)
qed

section \<open>The components, evaluated\<close>

text \<open>
  The component returns a value on every input: where it divides by
  \<open>ratio + overflow\<close> the overflow is positive and the ratio is 1.
\<close>

lemma simple_view:
  assumes r: "computeCategoryProgress p = Inr r"
    and one: "0 < overflowRatio r \<longrightarrow> progressRatio r = 1"
  shows "\<exists>v. CategoryProgressBar h p = Inr v \<and>
     (v = None) = (\<not> useFeatureFlag h ''progressBar'' \<or> baselineAmount r \<le> 0)"
proof (cases "0 < overflowRatio r")
  case True
  with one have "progressRatio r + overflowRatio r \<noteq> 0" by simp
  with True show ?thesis
    by (simp add: CategoryProgressBar_def r Let_def)
next
  case False
  then show ?thesis
    by (simp add: CategoryProgressBar_def r Let_def)
qed

lemma template_view:
  assumes r: "computeCategoryProgressT q = Inr r"
    and one: "0 < overflowRatioT r \<longrightarrow> spentRatio r = 1"
  shows "\<exists>v. CategoryProgressBarT h q = Inr v \<and>
     (v = None) = (\<not> useFeatureFlag h ''progressBar'' \<or> baselineAmountT r \<le> 0)"
proof (cases "0 < overflowRatioT r")
  case True
  with one have "spentRatio r + overflowRatioT r \<noteq> 0" by simp
  with True show ?thesis
    by (simp add: CategoryProgressBarT_def r Let_def)
next
  case False
  then show ?thesis
    by (simp add: CategoryProgressBarT_def r Let_def)
qed

lemma format_cents_values:
  "format_cents 10000 = ''10000''" "format_cents 3000 = ''3000''"
  "format_cents 7000 = ''7000''" "format_cents 5000 = ''5000''"
  "format_cents 6000 = ''6000''" "format_cents (- 1000) = ''-1000''"
  by (simp_all add: format_cents_def show_int_def show_nat.simps digit_char_def)

lemma show_int_values: "show_int 30 = ''30''" "show_int 120 = ''120''"
  by (simp_all add: show_int_def show_nat.simps digit_char_def)

lemma math_round_values: "math_round 30 = 30" "math_round 120 = 120"
  unfolding math_round_def by (rule floor_unique; simp)+

section \<open>The claims about the calculators\<close>

text \<open>
  C1. The claim: in both calculators \<open>remaining\<close> equals the input \<open>balance\<close> in every
  branch, the branch with no budget and no activity included. In that branch both
  calculators return the literal 0. Here they are run on the input of the test
  "should handle negative assigned amount", whose balance is -10000.
\<close>

theorem remaining_zero_when_quiet:
  "computeCategoryProgress \<lparr>assigned = - 10000, activity = 0, balance = - 10000\<rparr> =
     Inr \<lparr>baselineAmount = 0, progressRatio = 0, overflowRatio = 0,
          remaining = 0, state = within_budget\<rparr> \<and>
   computeCategoryProgressT
       \<lparr>assigned = - 10000, activity = 0, balance = - 10000, template = None\<rparr> =
     Inr \<lparr>baselineAmountT = 0, spentRatio = 0, budgetedRatio = 0,
          overflowRatioT = 0, remainingT = 0, stateT = funded\<rparr>"
  by (simp add: simple_quiet template_quiet)

text \<open>
  C2. The result of either calculator keeps the invariant of the data model: the ratio
  lies in [0,1], the overflow is not negative, a positive overflow comes with the ratio 1,
  the baseline is not negative, and a zero baseline comes with a zero ratio and a zero
  overflow.
\<close>

theorem result_invariant:
  "(\<exists>r. computeCategoryProgress p = Inr r \<and>
        0 \<le> progressRatio r \<and> progressRatio r \<le> 1 \<and>
        0 \<le> overflowRatio r \<and>
        (0 < overflowRatio r \<longrightarrow> progressRatio r = 1) \<and>
        0 \<le> baselineAmount r \<and>
        (baselineAmount r = 0 \<longrightarrow> progressRatio r = 0 \<and> overflowRatio r = 0)) \<and>
   (\<exists>r. computeCategoryProgressT q = Inr r \<and>
        0 \<le> spentRatio r \<and> spentRatio r \<le> 1 \<and>
        0 \<le> overflowRatioT r \<and>
        (0 < overflowRatioT r \<longrightarrow> spentRatio r = 1) \<and>
        0 \<le> baselineAmountT r \<and>
        (baselineAmountT r = 0 \<longrightarrow> spentRatio r = 0 \<and> overflowRatioT r = 0))"
  using simple_invariant template_invariant by (rule conjI)

theorem result_invariant_witness:
  "(\<exists>r. computeCategoryProgress \<lparr>assigned = 10000, activity = - 12000, balance = - 2000\<rparr> =
          Inr r \<and> 0 < overflowRatio r \<and> progressRatio r = 1) \<and>
   (\<exists>r. computeCategoryProgressT
          \<lparr>assigned = 10000, activity = - 12000, balance = - 2000, template = None\<rparr> =
          Inr r \<and> 0 < overflowRatioT r \<and> spentRatio r = 1) \<and>
   (\<exists>r. computeCategoryProgress \<lparr>assigned = 0, activity = 0, balance = 0\<rparr> = Inr r \<and>
        baselineAmount r = 0 \<and> progressRatio r = 0 \<and> overflowRatio r = 0) \<and>
   (\<exists>r. computeCategoryProgressT
          \<lparr>assigned = 0, activity = 0, balance = 0, template = None\<rparr> = Inr r \<and>
        baselineAmountT r = 0 \<and> spentRatio r = 0 \<and> overflowRatioT r = 0)"
  using
    result_invariant [of "\<lparr>assigned = 10000, activity = - 12000, balance = - 2000\<rparr>"
      "\<lparr>assigned = 10000, activity = - 12000, balance = - 2000, template = None\<rparr>"]
    result_invariant [of "\<lparr>assigned = 0, activity = 0, balance = 0\<rparr>"
      "\<lparr>assigned = 0, activity = 0, balance = 0, template = None\<rparr>"]
  by (simp add: simple_over simple_quiet template_over template_quiet)

text \<open>
  C3. Both calculators are total: on every input they return a result, so no division
  on a path that is taken has a zero divisor.
\<close>

theorem calculators_total:
  "(\<exists>r. computeCategoryProgress p = Inr r) \<and> (\<exists>r. computeCategoryProgressT q = Inr r)"
proof
  show "\<exists>r. computeCategoryProgress p = Inr r"
    by (cases p rule: branches)
       (simp_all add: simple_quiet simple_unbudgeted simple_over simple_within)
  show "\<exists>r. computeCategoryProgressT q = Inr r"
    by (cases q rule: branches)
       (simp_all add: template_quiet template_unbudgeted template_over template_within)
qed

text \<open>
  C5. With a budget (\<open>assigned > 0\<close>) and spending above it, both calculators return the
  baseline \<open>assigned\<close>, the ratio 1, the overflow \<open>(spent - assigned) / assigned\<close> and the
  state over-budget.
\<close>

theorem over_budget_result:
  "(0 < assigned p \<and> assigned p < \<bar>activity p\<bar> \<longrightarrow>
      computeCategoryProgress p =
        Inr \<lparr>baselineAmount = assigned p, progressRatio = 1,
             overflowRatio = (\<bar>activity p\<bar> - assigned p) / assigned p,
             remaining = balance p, state = over_budget\<rparr>) \<and>
   (0 < assigned q \<and> assigned q < \<bar>activity q\<bar> \<longrightarrow>
      computeCategoryProgressT q =
        Inr \<lparr>baselineAmountT = assigned q, spentRatio = 1, budgetedRatio = 1,
             overflowRatioT = (\<bar>activity q\<bar> - assigned q) / assigned q,
             remainingT = balance q, stateT = over_budgetT\<rparr>)"
  by (simp add: simple_over template_over)

theorem over_budget_result_witness:
  "(0::rat) < 10000 \<and> (10000::rat) < \<bar>- 12000\<bar> \<and>
   computeCategoryProgress \<lparr>assigned = 10000, activity = - 12000, balance = - 2000\<rparr> =
     Inr \<lparr>baselineAmount = 10000, progressRatio = 1, overflowRatio = 1 / 5,
          remaining = - 2000, state = over_budget\<rparr> \<and>
   computeCategoryProgressT
       \<lparr>assigned = 10000, activity = - 12000, balance = - 2000, template = Some 20000\<rparr> =
     Inr \<lparr>baselineAmountT = 10000, spentRatio = 1, budgetedRatio = 1,
          overflowRatioT = 1 / 5, remainingT = - 2000, stateT = over_budgetT\<rparr>"
  using over_budget_result
    [of "\<lparr>assigned = 10000, activity = - 12000, balance = - 2000\<rparr>"
        "\<lparr>assigned = 10000, activity = - 12000, balance = - 2000, template = Some 20000\<rparr>"]
  by simp

text \<open>
  C6. Without a budget (\<open>assigned \<le> 0\<close>) and with spending, both calculators return the
  baseline \<open>spent\<close>, the ratio 1, no overflow and the state over-budget.
\<close>

theorem unbudgeted_spending_result:
  "(assigned p \<le> 0 \<and> 0 < \<bar>activity p\<bar> \<longrightarrow>
      computeCategoryProgress p =
        Inr \<lparr>baselineAmount = \<bar>activity p\<bar>, progressRatio = 1, overflowRatio = 0,
             remaining = balance p, state = over_budget\<rparr>) \<and>
   (assigned q \<le> 0 \<and> 0 < \<bar>activity q\<bar> \<longrightarrow>
      computeCategoryProgressT q =
        Inr \<lparr>baselineAmountT = \<bar>activity q\<bar>, spentRatio = 1, budgetedRatio = 0,
             overflowRatioT = 0, remainingT = balance q, stateT = over_budgetT\<rparr>)"
  by (simp add: simple_unbudgeted template_unbudgeted)

theorem unbudgeted_spending_result_witness:
  "(0::rat) \<le> 0 \<and> (0::rat) < \<bar>- 500\<bar> \<and>
   computeCategoryProgress \<lparr>assigned = 0, activity = - 500, balance = - 500\<rparr> =
     Inr \<lparr>baselineAmount = 500, progressRatio = 1, overflowRatio = 0,
          remaining = - 500, state = over_budget\<rparr> \<and>
   computeCategoryProgressT
       \<lparr>assigned = 0, activity = - 500, balance = - 500, template = None\<rparr> =
     Inr \<lparr>baselineAmountT = 500, spentRatio = 1, budgetedRatio = 0,
          overflowRatioT = 0, remainingT = - 500, stateT = over_budgetT\<rparr>"
  using unbudgeted_spending_result
    [of "\<lparr>assigned = 0, activity = - 500, balance = - 500\<rparr>"
        "\<lparr>assigned = 0, activity = - 500, balance = - 500, template = None\<rparr>"]
  by simp

text \<open>
  C7. In the template-aware calculator, with a budget and spending within it: the baseline
  is the template when there is one (\<open>template > 0\<close>) and \<open>assigned\<close> otherwise; the spent
  ratio is \<open>min (spent / assigned) 1\<close> times the budgeted ratio; the state is underfunded
  when there is a template above \<open>assigned\<close>, and funded otherwise.
\<close>

theorem within_budget_template_result:
  assumes "0 < assigned q" and "\<bar>activity q\<bar> \<le> assigned q"
  shows "\<exists>r. computeCategoryProgressT q = Inr r \<and>
     baselineAmountT r = (if 0 < template_or_0 q then template_or_0 q else assigned q) \<and>
     spentRatio r = min (\<bar>activity q\<bar> / assigned q) 1 * budgetedRatio r \<and>
     budgetedRatio r =
       (if 0 < template_or_0 q then min (assigned q / template_or_0 q) 1 else 1) \<and>
     stateT r =
       (if 0 < template_or_0 q \<and> assigned q < template_or_0 q then underfunded else funded)"
  using assms by (simp add: template_within)

theorem within_budget_template_result_witness:
  "(0::rat) < 5000 \<and> \<bar>- 3000 :: rat\<bar> \<le> 5000 \<and>
   (\<exists>r. computeCategoryProgressT
          \<lparr>assigned = 5000, activity = - 3000, balance = 2000, template = Some 10000\<rparr> =
        Inr r \<and>
     baselineAmountT r = 10000 \<and> spentRatio r = 3 / 5 * budgetedRatio r \<and>
     budgetedRatio r = 1 / 2 \<and> stateT r = underfunded)"
  using within_budget_template_result
    [of "\<lparr>assigned = 5000, activity = - 3000, balance = 2000, template = Some 10000\<rparr>"]
  by (simp add: template_or_0_def)

text \<open>
  C8, as claimed: the template-aware calculator returns
  \<open>min (assigned / template) 1\<close> with a template and 1 without, in every branch. It does
  not: over budget with half the template assigned it returns 1, not 1/2, and without
  budget and without template it returns 0, not 1.
\<close>

theorem budgetedRatio_formula_counterexample:
  "computeCategoryProgressT
       \<lparr>assigned = 5000, activity = - 6000, balance = - 1000, template = Some 10000\<rparr> =
     Inr \<lparr>baselineAmountT = 5000, spentRatio = 1, budgetedRatio = 1,
          overflowRatioT = 1 / 5, remainingT = - 1000, stateT = over_budgetT\<rparr> \<and>
   min (5000 / 10000) 1 \<noteq> (1::rat) \<and>
   computeCategoryProgressT
       \<lparr>assigned = 0, activity = - 500, balance = - 500, template = None\<rparr> =
     Inr \<lparr>baselineAmountT = 500, spentRatio = 1, budgetedRatio = 0,
          overflowRatioT = 0, remainingT = - 500, stateT = over_budgetT\<rparr>"
  by (simp add: template_over template_unbudgeted)

text \<open>
  C8, amended. The returned \<open>budgetedRatio\<close> is 0 without a budget (\<open>assigned \<le> 0\<close>),
  1 when the spending exceeds a positive budget, and otherwise
  \<open>min (assigned / template) 1\<close> with a template (\<open>template > 0\<close>) and 1 without.
\<close>

theorem budgetedRatio_by_branch:
  "\<exists>r. computeCategoryProgressT q = Inr r \<and>
     budgetedRatio r =
       (if assigned q \<le> 0 then 0
        else if assigned q < \<bar>activity q\<bar> then 1
        else if 0 < template_or_0 q then min (assigned q / template_or_0 q) 1
        else 1)"
  by (cases q rule: branches)
     (simp_all add: template_quiet template_unbudgeted template_over template_within)

theorem budgetedRatio_by_branch_witness:
  "\<exists>r. computeCategoryProgressT
          \<lparr>assigned = 5000, activity = - 3000, balance = 2000, template = Some 10000\<rparr> =
        Inr r \<and> budgetedRatio r = 1 / 2"
  using budgetedRatio_by_branch
    [of "\<lparr>assigned = 5000, activity = - 3000, balance = 2000, template = Some 10000\<rparr>"]
  by (simp add: template_or_0_def)

text \<open>
  C9. The state is over-budget exactly when \<open>|activity| > max (assigned, 0)\<close>; otherwise
  it is within-budget in the simple calculator, and funded or underfunded in the
  template-aware one.
\<close>

theorem over_budget_iff:
  "(\<exists>r. computeCategoryProgress p = Inr r \<and>
        (state r = over_budget) = (max (assigned p) 0 < \<bar>activity p\<bar>) \<and>
        (state r \<noteq> over_budget \<longrightarrow> state r = within_budget)) \<and>
   (\<exists>r. computeCategoryProgressT q = Inr r \<and>
        (stateT r = over_budgetT) = (max (assigned q) 0 < \<bar>activity q\<bar>) \<and>
        (stateT r \<noteq> over_budgetT \<longrightarrow> stateT r = funded \<or> stateT r = underfunded))"
proof
  show "\<exists>r. computeCategoryProgress p = Inr r \<and>
        (state r = over_budget) = (max (assigned p) 0 < \<bar>activity p\<bar>) \<and>
        (state r \<noteq> over_budget \<longrightarrow> state r = within_budget)"
    by (cases p rule: branches)
       (simp_all add: simple_quiet simple_unbudgeted simple_over simple_within max_def)
  show "\<exists>r. computeCategoryProgressT q = Inr r \<and>
        (stateT r = over_budgetT) = (max (assigned q) 0 < \<bar>activity q\<bar>) \<and>
        (stateT r \<noteq> over_budgetT \<longrightarrow> stateT r = funded \<or> stateT r = underfunded)"
    by (cases q rule: branches)
       (simp_all add: template_quiet template_unbudgeted template_over template_within
          max_def)
qed

theorem over_budget_iff_witness:
  "(\<exists>r. computeCategoryProgress \<lparr>assigned = 10000, activity = - 3000, balance = 7000\<rparr> =
          Inr r \<and> state r \<noteq> over_budget \<and> state r = within_budget) \<and>
   (\<exists>r. computeCategoryProgressT
          \<lparr>assigned = 5000, activity = - 3000, balance = 2000, template = Some 10000\<rparr> =
          Inr r \<and> stateT r \<noteq> over_budgetT \<and> stateT r = underfunded)"
  using
    over_budget_iff [of "\<lparr>assigned = 10000, activity = - 3000, balance = 7000\<rparr>"
      "\<lparr>assigned = 5000, activity = - 3000, balance = 2000, template = Some 10000\<rparr>"]
  by (simp add: simple_within template_within template_or_0_def)

text \<open>
  C10. Negating \<open>activity\<close> changes the result of neither calculator.
\<close>

theorem activity_sign_irrelevant:
  "computeCategoryProgress (p\<lparr>activity := - activity p\<rparr>) = computeCategoryProgress p \<and>
   computeCategoryProgressT (q\<lparr>activity := - activity q\<rparr>) = computeCategoryProgressT q"
  by (simp add: computeCategoryProgress_def computeCategoryProgressT_def Let_def
      template_or_0_activity)

section \<open>The claim about the component\<close>

text \<open>
  C4, as claimed: \<open>CategoryProgressBar\<close> renders nothing unless the feature flag is on,
  the preference to show the bars is on and the baseline is positive. The component does
  not read the preference: with the flag on and the preference \<open>showProgressBars\<close> set to
  \<open>false\<close> (so that the row makes no room for bars), both drafts render the bar of a
  category with a positive baseline.
\<close>

theorem preference_gate_counterexample:
  "useFeatureFlag hooks_bars_hidden ''progressBar'' \<and>
   useGlobalPref hooks_bars_hidden ''showProgressBars'' = Some False \<and>
   \<not> showProgressBars hooks_bars_hidden \<and>
   CategoryProgressBar hooks_bars_hidden
       \<lparr>assigned = 10000, activity = - 3000, balance = 7000\<rparr> =
     Inr (Some \<lparr>tooltipContent =
                  ''30% of budget spent'' @ separator @ ''Budgeted: 10000'' @ separator @
                  ''Spent: 3000'' @ separator @ ''Balance: 7000'',
                fillColor = templateNumberFunded,
                fills = [\<lparr>kind = spent_fill, leftPct = 0, widthPct = 30,
                          borderRadius = 3\<rparr>]\<rparr>) \<and>
   CategoryProgressBarT hooks_bars_hidden
       \<lparr>assigned = 5000, activity = - 6000, balance = - 1000, template = Some 10000\<rparr> =
     Inr (Some \<lparr>tooltipContent =
                  ''120% of template spent'' @ separator @ ''Template: 10000'' @ separator @
                  ''Budgeted: 5000'' @ separator @ ''Spent: 6000'' @ separator @
                  ''Balance: -1000'',
                fillColor = budgetNumberNegative,
                fills = [\<lparr>kind = budgeted_fill, leftPct = 0, widthPct = 100,
                          borderRadius = 3\<rparr>,
                         \<lparr>kind = spent_fill, leftPct = 0, widthPct = 250 / 3,
                          borderRadius = 0\<rparr>,
                         \<lparr>kind = overflow_fill, leftPct = 250 / 3, widthPct = 50 / 3,
                          borderRadius = 0\<rparr>]\<rparr>)"
  by (simp add: hooks_bars_hidden_def showProgressBars_def CategoryProgressBar_def
      CategoryProgressBarT_def simple_within template_over Let_def getProgressBarColor_def getProgressBarColorT_def
      template_set_def template_or_0_def math_round_values show_int_values
      format_cents_values)

text \<open>
  C4, amended. In both drafts \<open>CategoryProgressBar\<close> returns a value on every input, and
  it renders nothing exactly when the feature flag \<open>progressBar\<close> is off or the computed
  baseline is not positive: with the flag off nothing is rendered whatever the input, and
  with the flag on and a positive baseline something is. The preference is not read:
  replacing the preferences does not change what is rendered.
\<close>

theorem render_gate:
  "(\<exists>r v. computeCategoryProgress p = Inr r \<and> CategoryProgressBar h p = Inr v \<and>
      (v = None) = (\<not> useFeatureFlag h ''progressBar'' \<or> baselineAmount r \<le> 0)) \<and>
   CategoryProgressBar (h\<lparr>useGlobalPref := g\<rparr>) p = CategoryProgressBar h p \<and>
   (\<exists>r v. computeCategoryProgressT q = Inr r \<and> CategoryProgressBarT h q = Inr v \<and>
      (v = None) = (\<not> useFeatureFlag h ''progressBar'' \<or> baselineAmountT r \<le> 0)) \<and>
   CategoryProgressBarT (h\<lparr>useGlobalPref := g\<rparr>) q = CategoryProgressBarT h q"
proof (intro conjI)
  from simple_invariant [of p] obtain r where
    "computeCategoryProgress p = Inr r" "0 < overflowRatio r \<longrightarrow> progressRatio r = 1"
    by blast
  then show "\<exists>r v. computeCategoryProgress p = Inr r \<and> CategoryProgressBar h p = Inr v \<and>
      (v = None) = (\<not> useFeatureFlag h ''progressBar'' \<or> baselineAmount r \<le> 0)"
    using simple_view [of p r h] by blast
  from template_invariant [of q] obtain r where
    "computeCategoryProgressT q = Inr r" "0 < overflowRatioT r \<longrightarrow> spentRatio r = 1"
    by blast
  then show "\<exists>r v. computeCategoryProgressT q = Inr r \<and> CategoryProgressBarT h q = Inr v \<and>
      (v = None) = (\<not> useFeatureFlag h ''progressBar'' \<or> baselineAmountT r \<le> 0)"
    using template_view [of q r h] by blast
  show "CategoryProgressBar (h\<lparr>useGlobalPref := g\<rparr>) p = CategoryProgressBar h p"
    by (simp add: CategoryProgressBar_def)
  show "CategoryProgressBarT (h\<lparr>useGlobalPref := g\<rparr>) q = CategoryProgressBarT h q"
    by (simp add: CategoryProgressBarT_def)
qed

theorem render_gate_witness:
  "(\<exists>v. CategoryProgressBar hooks_disabled
          \<lparr>assigned = 10000, activity = - 3000, balance = 7000\<rparr> = Inr v \<and> v = None) \<and>
   (\<exists>v. CategoryProgressBar hooks_bars_hidden
          \<lparr>assigned = 10000, activity = - 3000, balance = 7000\<rparr> = Inr v \<and> v \<noteq> None) \<and>
   (\<exists>v. CategoryProgressBar hooks_bars_hidden
          \<lparr>assigned = 0, activity = 0, balance = 7000\<rparr> = Inr v \<and> v = None) \<and>
   (\<exists>v. CategoryProgressBarT hooks_disabled
          \<lparr>assigned = 5000, activity = - 3000, balance = 2000, template = Some 10000\<rparr> =
        Inr v \<and> v = None) \<and>
   (\<exists>v. CategoryProgressBarT hooks_bars_hidden
          \<lparr>assigned = 5000, activity = - 3000, balance = 2000, template = Some 10000\<rparr> =
        Inr v \<and> v \<noteq> None)"
  using
    render_gate [of "\<lparr>assigned = 10000, activity = - 3000, balance = 7000\<rparr>" hooks_disabled
      _ "\<lparr>assigned = 5000, activity = - 3000, balance = 2000, template = Some 10000\<rparr>"]
    render_gate [of "\<lparr>assigned = 10000, activity = - 3000, balance = 7000\<rparr>"
      hooks_bars_hidden
      _ "\<lparr>assigned = 5000, activity = - 3000, balance = 2000, template = Some 10000\<rparr>"]
    render_gate [of "\<lparr>assigned = 0, activity = 0, balance = 7000\<rparr>" hooks_bars_hidden]
  by (simp add: hooks_disabled_def hooks_bars_hidden_def simple_within simple_quiet
      template_within template_or_0_def)

end
